theory Spec2Isabelle
  imports Complex_Main "HOL-Library.Multiset" "HOL-Library.Word"
begin

section \<open>JavaScript numbers\<close>

text \<open>
  A JavaScript number is an IEEE 754 double: 64 bits, of which bit 63 is the sign, bits
  62 to 52 the biased exponent and bits 51 to 0 the fraction. The numbers of a request
  reach the handlers as the doubles that \<^verbatim>\<open>JSON.parse\<close> made of their literals.
\<close>

type_synonym double = "64 word"

definition fraction :: "double \<Rightarrow> nat" where
  "fraction w = unat w mod 2 ^ 52"

definition exponent :: "double \<Rightarrow> nat" where
  "exponent w = unat w div 2 ^ 52 mod 2 ^ 11"

definition negative :: "double \<Rightarrow> bool" where
  "negative w = (2 ^ 63 \<le> unat w)"

definition signum :: "double \<Rightarrow> int" where
  "signum w = (if negative w then - 1 else 1)"


definition is_nan :: "double \<Rightarrow> bool" where
  "is_nan w = (exponent w = 2047 \<and> fraction w \<noteq> 0)"

definition is_zero :: "double \<Rightarrow> bool" where
  "is_zero w = (exponent w = 0 \<and> fraction w = 0)"

text \<open>The number a finite double stands for.\<close>

definition double_value :: "double \<Rightarrow> rat" where
  "double_value w =
     of_int (signum w) *
     (if exponent w = 0 then of_nat (fraction w) / 2 ^ 1074
      else if 1075 \<le> exponent w then of_nat (2 ^ 52 + fraction w) * 2 ^ (exponent w - 1075)
      else of_nat (2 ^ 52 + fraction w) / 2 ^ (1075 - exponent w))"

text \<open>The literal \<^verbatim>\<open>5\<close> of \<^verbatim>\<open>rating || 5\<close>: the double \<open>1.25 * 2\<^sup>2\<close>.\<close>

definition five :: double where
  "five = 0x4014000000000000"

section \<open>JavaScript values of a parsed JSON request body\<close>

text \<open>
  The handlers destructure \<^verbatim>\<open>req.body\<close>, the object that \<^verbatim>\<open>express.json()\<close> parsed.
  A field of it is any JSON value, or \<^verbatim>\<open>undefined\<close> when the body has no such field.
  A request whose body is not a JSON object reaches no handler code beyond the
  destructuring and is left out.
\<close>

datatype js_value =
    JUndefined
  | JNull
  | JBool bool
  | JNum double
  | JStr string
  | JArr "js_value list"
  | JObj "(string \<times> js_value) list"

text \<open>
  JavaScript's ToBoolean, which \<^verbatim>\<open>!v\<close> and \<^verbatim>\<open>v || w\<close> apply to \<^verbatim>\<open>v\<close>: a number is falsy
  when it is \<open>+0\<close>, \<open>-0\<close> or NaN.
\<close>

fun truthy :: "js_value \<Rightarrow> bool" where
  "truthy JUndefined = False"
| "truthy JNull = False"
| "truthy (JBool b) = b"
| "truthy (JNum w) = (\<not> is_zero w \<and> \<not> is_nan w)"
| "truthy (JStr s) = (s \<noteq> [])"
| "truthy (JArr vs) = True"
| "truthy (JObj kvs) = True"

text \<open>\<^verbatim>\<open>v || w\<close>: the left operand when it is truthy, the right one otherwise.\<close>

definition js_or :: "js_value \<Rightarrow> js_value \<Rightarrow> js_value" where
  "js_or v w = (if truthy v then v else w)"

section \<open>The content store\<close>

text \<open>
  The values of SQLite: \<^verbatim>\<open>NULL\<close>, an INTEGER, a REAL (a double), a TEXT. Two more
  constructors stand for the results of conversions that the model names but does not
  compute: \<open>SqlRendered w\<close> is the TEXT that SQLite prints the REAL \<open>w\<close> as (\<^verbatim>\<open>'7.0'\<close> for
  7; it is never empty), and \<open>SqlNumeric s\<close> is what an INTEGER column keeps of the TEXT
  \<open>s\<close>: the number that \<open>s\<close> spells when it spells one (the integer 3 for \<^verbatim>\<open>'3'\<close>), and
  \<open>s\<close> itself otherwise.
\<close>

datatype sql_value =
    SqlNull
  | SqlInt int
  | SqlReal double
  | SqlText string
  | SqlRendered double
  | SqlNumeric string

text \<open>
  The two tables of \<^verbatim>\<open>literary.db\<close>. \<^verbatim>\<open>created_at\<close> is the clock reading
  \<^verbatim>\<open>CURRENT_TIMESTAMP\<close> at the insertion, in seconds.
\<close>

record content_row =
  c_id :: int
  c_title :: sql_value
  c_body :: sql_value
  c_type :: sql_value
  c_pdf_data :: sql_value
  c_created_at :: nat

record review_row =
  r_id :: int
  r_name :: sql_value
  r_comment :: sql_value
  r_rating :: sql_value
  r_created_at :: nat

text \<open>
  Each table is \<^verbatim>\<open>INTEGER PRIMARY KEY AUTOINCREMENT\<close>: beside its rows (in rowid order)
  the store keeps the largest rowid the table ever held (its \<^verbatim>\<open>sqlite_sequence\<close> entry),
  and a new row gets that number plus one. Rowids are integers without the 64-bit bound.
\<close>

record db =
  content :: "content_row list"
  content_seq :: int
  reviews :: "review_row list"
  reviews_seq :: int

definition empty_db :: db where
  "empty_db = \<lparr>content = [], content_seq = 0, reviews = [], reviews_seq = 0\<rparr>"

datatype store_error = BindError | ConstraintError

text \<open>
  How \<^verbatim>\<open>better-sqlite3\<close> binds one JavaScript value to a parameter: a number is bound
  as a double (\<^verbatim>\<open>sqlite3_bind_double\<close>, which binds \<^verbatim>\<open>NULL\<close> for a NaN), a string as
  TEXT, \<^verbatim>\<open>null\<close> and \<^verbatim>\<open>undefined\<close> as \<^verbatim>\<open>NULL\<close>; anything else makes \<^verbatim>\<open>run\<close> throw.
\<close>

fun bind_value :: "js_value \<Rightarrow> sql_value option" where
  "bind_value (JNum w) = Some (if is_nan w then SqlNull else SqlReal w)"
| "bind_value (JStr s) = Some (SqlText s)"
| "bind_value JNull = Some SqlNull"
| "bind_value JUndefined = Some SqlNull"
| "bind_value v = None"

text \<open>
  The arguments of \<^verbatim>\<open>stmt.run(...)\<close>, for a statement whose parameters are all anonymous
  (\<^verbatim>\<open>?\<close>): an array argument binds its elements one after the other (the library's
  \<^verbatim>\<open>stmt.run(['John'], ['Smith', 45])\<close> is \<^verbatim>\<open>stmt.run('John', 'Smith', 45)\<close>); a plain
  object carries the named parameters, of which these statements have none, and a second
  object is refused; any other argument binds one value. The flag says whether an object
  has been seen. \<open>None\<close> is the exception thrown.
\<close>

fun bind_args :: "bool \<Rightarrow> js_value list \<Rightarrow> sql_value list option" where
  "bind_args seen [] = Some []"
| "bind_args seen (JArr vs # rest) =
     (case those (map bind_value vs) of
        None \<Rightarrow> None
      | Some xs \<Rightarrow> map_option ((@) xs) (bind_args seen rest))"
| "bind_args seen (JObj kvs # rest) =
     (if seen then None else bind_args True rest)"
| "bind_args seen (v # rest) =
     (case bind_value v of
        None \<Rightarrow> None
      | Some x \<Rightarrow> map_option ((#) x) (bind_args seen rest))"

text \<open>
  Column affinity, applied to a value on its way into a column. An INTEGER column
  (\<^verbatim>\<open>rating\<close>) turns a REAL into an INTEGER when that loses nothing: when the double is a
  whole number strictly between \<open>-2\<^sup>6\<^sup>3\<close> and \<open>2\<^sup>6\<^sup>3 - 1\<close> (SQLite converts the double
  to a 64-bit integer and back, and wants the same double again and neither end of the
  integer range). Below, the test is written out on the exponent and the fraction.
\<close>

definition real_to_integer :: "double \<Rightarrow> sql_value" where
  "real_to_integer w =
     (let e = exponent w; m = int (2 ^ 52 + fraction w); sg = signum w in
      if e = 2047 then SqlReal w
      else if e = 0 then (if fraction w = 0 then SqlInt 0 else SqlReal w)
      else if 1075 \<le> e then (if e \<le> 1085 then SqlInt (sg * (m * 2 ^ (e - 1075))) else SqlReal w)
      else if m mod 2 ^ (1075 - e) = 0 then SqlInt (sg * (m div 2 ^ (1075 - e)))
      else SqlReal w)"

fun integer_affinity :: "sql_value \<Rightarrow> sql_value" where
  "integer_affinity (SqlReal w) = real_to_integer w"
| "integer_affinity (SqlText s) = SqlNumeric s"
| "integer_affinity v = v"

text \<open>A TEXT column (every other column a request fills) turns a number into its text.\<close>

fun text_affinity :: "sql_value \<Rightarrow> sql_value" where
  "text_affinity (SqlReal w) = SqlRendered w"
| "text_affinity v = v"

text \<open>
  \<^verbatim>\<open>INSERT INTO content (title, body, type, pdf_data) VALUES (?, ?, ?, ?)\<close>: four values
  must be bound, neither more nor fewer; \<^verbatim>\<open>title\<close>, \<^verbatim>\<open>body\<close> and \<^verbatim>\<open>type\<close> are
  \<^verbatim>\<open>NOT NULL\<close>. The result is \<^verbatim>\<open>info.lastInsertRowid\<close> and the new store.
\<close>

definition insert_content :: "db \<Rightarrow> nat \<Rightarrow> js_value list \<Rightarrow> store_error + (int \<times> db)" where
  "insert_content d now args =
     (case bind_args False args of
        None \<Rightarrow> Inl BindError
      | Some [t, b, k, p] \<Rightarrow>
          if t = SqlNull \<or> b = SqlNull \<or> k = SqlNull then Inl ConstraintError
          else
            let i = content_seq d + 1 in
            Inr (i, d\<lparr>content := content d @
                       [\<lparr>c_id = i, c_title = text_affinity t, c_body = text_affinity b,
                         c_type = text_affinity k, c_pdf_data = text_affinity p,
                         c_created_at = now\<rparr>],
                     content_seq := i\<rparr>)
      | Some xs \<Rightarrow> Inl BindError)"

text \<open>
  \<^verbatim>\<open>INSERT INTO reviews (name, comment, rating) VALUES (?, ?, ?)\<close>; \<^verbatim>\<open>name\<close> and
  \<^verbatim>\<open>comment\<close> are \<^verbatim>\<open>NOT NULL\<close>.
\<close>

definition insert_review :: "db \<Rightarrow> nat \<Rightarrow> js_value list \<Rightarrow> store_error + (int \<times> db)" where
  "insert_review d now args =
     (case bind_args False args of
        None \<Rightarrow> Inl BindError
      | Some [n, c, r] \<Rightarrow>
          if n = SqlNull \<or> c = SqlNull then Inl ConstraintError
          else
            let i = reviews_seq d + 1 in
            Inr (i, d\<lparr>reviews := reviews d @
                       [\<lparr>r_id = i, r_name = text_affinity n, r_comment = text_affinity c,
                         r_rating = integer_affinity r, r_created_at = now\<rparr>],
                     reviews_seq := i\<rparr>)
      | Some xs \<Rightarrow> Inl BindError)"

text \<open>
  \<^verbatim>\<open>DELETE FROM content WHERE id = ?\<close> and \<^verbatim>\<open>DELETE FROM reviews WHERE id = ?\<close>. The
  \<^verbatim>\<open>:id\<close> path segment is compared with the integer rowid; the model takes the integer
  the segment denotes. The result is \<^verbatim>\<open>info.changes\<close>, the number of rows deleted, and
  the new store.
\<close>

definition delete_content_row :: "db \<Rightarrow> int \<Rightarrow> nat \<times> db" where
  "delete_content_row d i =
     (let kept = filter (\<lambda>r. c_id r \<noteq> i) (content d)
      in (length (content d) - length kept, d\<lparr>content := kept\<rparr>))"

definition delete_review_row :: "db \<Rightarrow> int \<Rightarrow> nat \<times> db" where
  "delete_review_row d i =
     (let kept = filter (\<lambda>r. r_id r \<noteq> i) (reviews d)
      in (length (reviews d) - length kept, d\<lparr>reviews := kept\<rparr>))"

text \<open>
  \<^verbatim>\<open>SELECT * FROM t ORDER BY created_at DESC\<close>: every row, latest \<^verbatim>\<open>created_at\<close> first.
  SQL leaves the order of rows with equal \<^verbatim>\<open>created_at\<close> open; here they keep their
  rowid order.
\<close>

definition order_by_created_at_desc :: "('r \<Rightarrow> nat) \<Rightarrow> 'r list \<Rightarrow> 'r list" where
  "order_by_created_at_desc created rows = sort_key (\<lambda>r. - int (created r)) rows"

section \<open>The request handler\<close>

datatype payload =
    ErrorJson string
  | IdJson int
  | SuccessJson bool
  | ContentJson "content_row list"
  | ReviewsJson "review_row list"
  | ErrorPage

record response =
  status :: nat
  payload :: payload

text \<open>\<^verbatim>\<open>res.json(x)\<close> answers 200; \<^verbatim>\<open>res.status(n).json(x)\<close> answers \<open>n\<close>.\<close>

definition json :: "nat \<Rightarrow> payload \<Rightarrow> response" where
  "json n x = \<lparr>status = n, payload = x\<rparr>"

text \<open>
  An exception that leaves a handler (here: thrown by \<^verbatim>\<open>run\<close>) reaches Express's default
  error handler, which answers 500 with an error page.
\<close>

definition uncaught :: "store_error \<Rightarrow> response" where
  "uncaught e = \<lparr>status = 500, payload = ErrorPage\<rparr>"

text \<open>
  \<^verbatim>\<open>process.env.ADMIN_SECRET || "jaxelricweb"\<close>: the environment's value, or the literal
  when the variable is unset or empty.
\<close>

definition admin_secret :: "string option \<Rightarrow> string" where
  "admin_secret env =
     (case env of
        None \<Rightarrow> ''jaxelricweb''
      | Some s \<Rightarrow> if s = [] then ''jaxelricweb'' else s)"

text \<open>The fields the two POST handlers read from the body.\<close>

record content_request =
  title :: js_value
  body :: js_value
  type :: js_value
  pdfData :: js_value
  adminKey :: js_value

record review_request =
  name :: js_value
  comment :: js_value
  rating :: js_value

text \<open>\<^verbatim>\<open>app.get("/api/content")\<close>\<close>

definition get_content :: "db \<Rightarrow> response \<times> db" where
  "get_content d = (json 200 (ContentJson (order_by_created_at_desc c_created_at (content d))), d)"

text \<open>
  \<^verbatim>\<open>app.post("/api/content")\<close>. The secret is a string, so \<^verbatim>\<open>adminKey !== secret\<close> holds
  unless \<^verbatim>\<open>adminKey\<close> is that very string.
\<close>

definition post_content :: "string option \<Rightarrow> db \<Rightarrow> nat \<Rightarrow> content_request \<Rightarrow> response \<times> db" where
  "post_content env d now req =
     (let secret = admin_secret env in
      if adminKey req \<noteq> JStr secret then (json 401 (ErrorJson ''Unauthorized''), d)
      else if \<not> truthy (title req) \<or> \<not> truthy (body req) \<or> \<not> truthy (type req)
        then (json 400 (ErrorJson ''Missing fields''), d)
      else
        case insert_content d now [title req, body req, type req, js_or (pdfData req) JNull] of
          Inl e \<Rightarrow> (uncaught e, d)
        | Inr (i, d') \<Rightarrow> (json 200 (IdJson i), d'))"

text \<open>
  \<^verbatim>\<open>app.delete("/api/content/:id")\<close>; \<open>key\<close> is \<^verbatim>\<open>req.headers["x-admin-key"]\<close>, a string
  or \<^verbatim>\<open>undefined\<close>.
\<close>

definition delete_content :: "string option \<Rightarrow> db \<Rightarrow> string option \<Rightarrow> int \<Rightarrow> response \<times> db" where
  "delete_content env d key i =
     (let secret = admin_secret env in
      if key \<noteq> Some secret then (json 401 (ErrorJson ''Unauthorized''), d)
      else
        let (changes, d') = delete_content_row d i in
        if changes = 0 then (json 404 (ErrorJson ''Content not found''), d')
        else (json 200 (SuccessJson True), d'))"

text \<open>\<^verbatim>\<open>app.delete("/api/reviews/:id")\<close>: no header is read.\<close>

definition delete_review :: "db \<Rightarrow> int \<Rightarrow> response \<times> db" where
  "delete_review d i =
     (let (changes, d') = delete_review_row d i in
      if changes = 0 then (json 404 (ErrorJson ''Review not found''), d')
      else (json 200 (SuccessJson True), d'))"

text \<open>\<^verbatim>\<open>app.get("/api/reviews")\<close>\<close>

definition get_reviews :: "db \<Rightarrow> response \<times> db" where
  "get_reviews d = (json 200 (ReviewsJson (order_by_created_at_desc r_created_at (reviews d))), d)"

text \<open>\<^verbatim>\<open>app.post("/api/reviews")\<close>\<close>

definition post_review :: "db \<Rightarrow> nat \<Rightarrow> review_request \<Rightarrow> response \<times> db" where
  "post_review d now req =
     (if \<not> truthy (name req) \<or> \<not> truthy (comment req)
        then (json 400 (ErrorJson ''Missing fields''), d)
      else
        case insert_review d now [name req, comment req, js_or (rating req) (JNum five)] of
          Inl e \<Rightarrow> (uncaught e, d)
        | Inr (i, d') \<Rightarrow> (json 200 (IdJson i), d'))"

text \<open>
  The six API routes. A DELETE request carries its \<^verbatim>\<open>x-admin-key\<close> header (if any) and
  the \<^verbatim>\<open>:id\<close> of its path; \<open>now\<close> is the clock when the request is served.
\<close>

datatype request =
    GetContent
  | PostContent content_request
  | DeleteContent "string option" int
  | DeleteReview "string option" int
  | GetReviews
  | PostReview review_request

fun route :: "string option \<Rightarrow> db \<Rightarrow> nat \<Rightarrow> request \<Rightarrow> response \<times> db" where
  "route env d now GetContent = get_content d"
| "route env d now (PostContent req) = post_content env d now req"
| "route env d now (DeleteContent key i) = delete_content env d key i"
| "route env d now (DeleteReview key i) = delete_review d i"
| "route env d now GetReviews = get_reviews d"
| "route env d now (PostReview req) = post_review d now req"

text \<open>The store after a sequence of requests, each served at its own time.\<close>

fun serve :: "string option \<Rightarrow> db \<Rightarrow> (nat \<times> request) list \<Rightarrow> db" where
  "serve env d [] = d"
| "serve env d ((now, q) # qs) = serve env (snd (route env d now q)) qs"

section \<open>Properties of stores, values and requests\<close>

text \<open>
  What the primary keys guarantee: within a table no two rows share an id, and no id
  exceeds the table's sequence number.
\<close>

definition ids_ok :: "db \<Rightarrow> bool" where
  "ids_ok d =
     (distinct (map c_id (content d)) \<and> list_all (\<lambda>r. c_id r \<le> content_seq d) (content d) \<and>
      distinct (map r_id (reviews d)) \<and> list_all (\<lambda>r. r_id r \<le> reviews_seq d) (reviews d))"

text \<open>A stored value is non-empty when it is neither \<^verbatim>\<open>NULL\<close> nor the empty text.\<close>

definition nonempty :: "sql_value \<Rightarrow> bool" where
  "nonempty v = (v \<noteq> SqlNull \<and> v \<noteq> SqlText [])"

definition work_nonempty :: "content_row \<Rightarrow> bool" where
  "work_nonempty r = (nonempty (c_title r) \<and> nonempty (c_body r))"

definition review_nonempty :: "review_row \<Rightarrow> bool" where
  "review_nonempty r = (nonempty (r_name r) \<and> nonempty (r_comment r))"

text \<open>A value that is neither an array nor an object.\<close>

fun plain :: "js_value \<Rightarrow> bool" where
  "plain (JArr vs) = False"
| "plain (JObj kvs) = False"
| "plain v = True"

text \<open>A request whose title and body (for a review: name and comment) are plain.\<close>

fun plain_request :: "request \<Rightarrow> bool" where
  "plain_request (PostContent req) = (plain (title req) \<and> plain (body req))"
| "plain_request (PostReview req) = (plain (name req) \<and> plain (comment req))"
| "plain_request q = True"

text \<open>A store with two works and two reviews, for the examples.\<close>

definition sample_db :: db where
  "sample_db =
     \<lparr>content =
        [\<lparr>c_id = 1, c_title = SqlText ''Dawn'', c_body = SqlText ''Light'',
          c_type = SqlText ''poetry'', c_pdf_data = SqlNull, c_created_at = 100\<rparr>,
         \<lparr>c_id = 2, c_title = SqlText ''Dusk'', c_body = SqlText ''Dark'',
          c_type = SqlText ''novel'', c_pdf_data = SqlText ''data:application/pdf;base64,AA'',
          c_created_at = 200\<rparr>],
      content_seq = 2,
      reviews =
        [\<lparr>r_id = 1, r_name = SqlText ''Ann'', r_comment = SqlText ''Lovely.'',
          r_rating = SqlInt 5, r_created_at = 150\<rparr>,
         \<lparr>r_id = 3, r_name = SqlText ''Bob'', r_comment = SqlText ''Fine.'',
          r_rating = SqlInt 4, r_created_at = 250\<rparr>],
      reviews_seq = 3\<rparr>"

section \<open>Deleting rows\<close>

lemma changes_zero_iff: "(length xs \<le> length (filter P xs)) = (\<forall>x\<in>set xs. P x)"
proof
  assume "length xs \<le> length (filter P xs)"
  then have "length (filter P xs) = length xs"
    using length_filter_le [of P xs] by simp
  then show "\<forall>x\<in>set xs. P x"
    by (metis length_filter_less less_irrefl)
next
  assume "\<forall>x\<in>set xs. P x"
  then show "length xs \<le> length (filter P xs)" by simp
qed

lemma delete_one_of_distinct:
  "distinct (map f xs) \<Longrightarrow> i \<in> f ` set xs \<Longrightarrow>
   length (filter (\<lambda>r. f r \<noteq> i) xs) + 1 = length xs"
proof (induction xs)
  case Nil
  then show ?case by simp
next
  case (Cons x xs)
  show ?case
  proof (cases "f x = i")
    case True
    with Cons.prems have "i \<notin> f ` set xs" by simp
    then have "\<forall>r\<in>set xs. f r \<noteq> i" by blast
    then have "filter (\<lambda>r. f r \<noteq> i) xs = xs" by simp
    with True show ?thesis by simp
  next
    case False
    with Cons show ?thesis by auto
  qed
qed

text \<open>
  C1: DELETE /api/content/:id with the configured secret in the header. When no row has
  the id the answer is 404 with an error message and the store is unchanged; when a row
  has it the answer is 200 with success true, and the table keeps exactly its rows with
  another id (one row fewer, as ids are distinct).
\<close>

theorem delete_content_by_id:
  assumes "key = Some (admin_secret env)"
  shows "if \<exists>r\<in>set (content d). c_id r = i
         then delete_content env d key i =
                (json 200 (SuccessJson True),
                 d\<lparr>content := filter (\<lambda>r. c_id r \<noteq> i) (content d)\<rparr>)
              \<and> (ids_ok d \<longrightarrow>
                   length (filter (\<lambda>r. c_id r \<noteq> i) (content d)) + 1 = length (content d))
         else delete_content env d key i = (json 404 (ErrorJson ''Content not found''), d)"
proof (cases "\<exists>r\<in>set (content d). c_id r = i")
  case True
  then have "\<not> length (content d) \<le> length (filter (\<lambda>r. c_id r \<noteq> i) (content d))"
    by (simp add: changes_zero_iff)
  with assms have "delete_content env d key i =
      (json 200 (SuccessJson True), d\<lparr>content := filter (\<lambda>r. c_id r \<noteq> i) (content d)\<rparr>)"
    by (simp add: delete_content_def delete_content_row_def Let_def)
  moreover from True have "i \<in> c_id ` set (content d)" by auto
  ultimately show ?thesis
    using True delete_one_of_distinct [of c_id "content d" i] by (simp add: ids_ok_def)
next
  case False
  then have "filter (\<lambda>r. c_id r \<noteq> i) (content d) = content d" by simp
  with assms False show ?thesis
    by (simp add: delete_content_def delete_content_row_def Let_def)
qed

theorem delete_content_by_id_witness:
  "delete_content None sample_db (Some ''jaxelricweb'') 1 =
     (json 200 (SuccessJson True), sample_db\<lparr>content := [content sample_db ! 1]\<rparr>)
   \<and> length (content sample_db) = 2
   \<and> delete_content None sample_db (Some ''jaxelricweb'') 9 =
     (json 404 (ErrorJson ''Content not found''), sample_db)"
  using delete_content_by_id [of "Some ''jaxelricweb''" None sample_db 1]
    delete_content_by_id [of "Some ''jaxelricweb''" None sample_db 9]
  by (simp add: admin_secret_def sample_db_def)

text \<open>
  C8: DELETE /api/reviews/:id is answered the same whatever the \<^verbatim>\<open>x-admin-key\<close> header
  and the configured secret are: 200 with success true when a review has the id, which
  is then removed, and 404 with an error message when none has, the store unchanged.
\<close>

theorem delete_review_needs_no_secret:
  "if \<exists>r\<in>set (reviews d). r_id r = i
   then route env d now (DeleteReview key i) =
          (json 200 (SuccessJson True), d\<lparr>reviews := filter (\<lambda>r. r_id r \<noteq> i) (reviews d)\<rparr>)
   else route env d now (DeleteReview key i) = (json 404 (ErrorJson ''Review not found''), d)"
proof (cases "\<exists>r\<in>set (reviews d). r_id r = i")
  case True
  then have "\<not> length (reviews d) \<le> length (filter (\<lambda>r. r_id r \<noteq> i) (reviews d))"
    by (simp add: changes_zero_iff)
  with True show ?thesis
    by (simp add: delete_review_def delete_review_row_def Let_def)
next
  case False
  then have "filter (\<lambda>r. r_id r \<noteq> i) (reviews d) = reviews d" by simp
  with False show ?thesis
    by (simp add: delete_review_def delete_review_row_def Let_def)
qed

theorem delete_review_needs_no_secret_witness:
  "route None sample_db 300 (DeleteReview None 1) =
     (json 200 (SuccessJson True), sample_db\<lparr>reviews := [reviews sample_db ! 1]\<rparr>)
   \<and> route (Some ''s3cret'') sample_db 300 (DeleteReview (Some ''guess'') 2) =
     (json 404 (ErrorJson ''Review not found''), sample_db)"
  using delete_review_needs_no_secret [of sample_db 1 None 300 None]
    delete_review_needs_no_secret [of sample_db 2 "Some ''s3cret''" 300 "Some ''guess''"]
  by (simp add: sample_db_def)

section \<open>Authorisation\<close>

text \<open>
  C2: creating or deleting a Work with an admin secret other than the configured one (a
  missing one included) is answered 401 Unauthorized, whatever the rest of the request
  is, and the store is unchanged.
\<close>

theorem wrong_secret_unauthorized:
  "(adminKey req \<noteq> JStr (admin_secret env) \<longrightarrow>
      post_content env d now req = (json 401 (ErrorJson ''Unauthorized''), d))
   \<and> (key \<noteq> Some (admin_secret env) \<longrightarrow>
      delete_content env d key i = (json 401 (ErrorJson ''Unauthorized''), d))"
  by (simp add: post_content_def delete_content_def)

theorem wrong_secret_unauthorized_witness:
  "post_content None sample_db 300
      \<lparr>title = JStr ''Dawn'', body = JStr ''...'', type = JStr ''poetry'', pdfData = JUndefined,
       adminKey = JStr ''wrong''\<rparr> = (json 401 (ErrorJson ''Unauthorized''), sample_db)
   \<and> delete_content None sample_db (Some ''wrong'') 1 =
       (json 401 (ErrorJson ''Unauthorized''), sample_db)
   \<and> delete_content None sample_db None 1 =
       (json 401 (ErrorJson ''Unauthorized''), sample_db)"
  using wrong_secret_unauthorized [of
      "\<lparr>title = JStr ''Dawn'', body = JStr ''...'', type = JStr ''poetry'', pdfData = JUndefined,
        adminKey = JStr ''wrong''\<rparr>" None sample_db 300 "Some ''wrong''" 1]
    wrong_secret_unauthorized [of
      "\<lparr>title = JStr ''Dawn'', body = JStr ''...'', type = JStr ''poetry'', pdfData = JUndefined,
        adminKey = JStr ''wrong''\<rparr>" None sample_db 300 None 1]
  by (simp add: admin_secret_def)

text \<open>
  C10: on POST /api/content the secret is checked before the fields: a request whose
  adminKey is not the configured secret is answered 401 Unauthorized whatever its title,
  body and type are (missing ones included), and an answer 400 is only given to a request
  whose adminKey is the secret.
\<close>

theorem post_content_auth_first:
  "(adminKey req \<noteq> JStr (admin_secret env) \<longrightarrow>
      fst (post_content env d now req) = json 401 (ErrorJson ''Unauthorized''))
   \<and> (status (fst (post_content env d now req)) = 400 \<longrightarrow>
      adminKey req = JStr (admin_secret env))"
  by (simp add: post_content_def json_def)

theorem post_content_auth_first_witness:
  "fst (post_content None sample_db 300
      \<lparr>title = JUndefined, body = JStr [], type = JUndefined, pdfData = JUndefined,
       adminKey = JStr ''letmein''\<rparr>) = json 401 (ErrorJson ''Unauthorized'')
   \<and> status (fst (post_content None sample_db 300
      \<lparr>title = JUndefined, body = JStr [], type = JUndefined, pdfData = JUndefined,
       adminKey = JStr ''jaxelricweb''\<rparr>)) = 400"
  using post_content_auth_first [of
      "\<lparr>title = JUndefined, body = JStr [], type = JUndefined, pdfData = JUndefined,
        adminKey = JStr ''letmein''\<rparr>" None sample_db 300]
    post_content_auth_first [of
      "\<lparr>title = JUndefined, body = JStr [], type = JUndefined, pdfData = JUndefined,
        adminKey = JStr ''jaxelricweb''\<rparr>" None sample_db 300]
  by (simp add: admin_secret_def post_content_def json_def)

section \<open>Validation\<close>

text \<open>
  C4: POST /api/content with the configured secret and a title, body or type that is
  missing (\<open>JUndefined\<close>) or empty (\<open>JStr []\<close>), or any other value that is not truthy, is
  answered 400 with a validation error, and the store (so its row count) is unchanged.
\<close>

theorem post_content_missing_fields:
  assumes "adminKey req = JStr (admin_secret env)"
    and "\<not> truthy (title req) \<or> \<not> truthy (body req) \<or> \<not> truthy (type req)"
  shows "post_content env d now req = (json 400 (ErrorJson ''Missing fields''), d)"
  using assms by (simp add: post_content_def)

theorem post_content_missing_fields_witness:
  "post_content None sample_db 300
      \<lparr>title = JStr ''Dawn'', body = JStr [], type = JStr ''poetry'', pdfData = JUndefined,
       adminKey = JStr ''jaxelricweb''\<rparr> = (json 400 (ErrorJson ''Missing fields''), sample_db)
   \<and> post_content None sample_db 300
      \<lparr>title = JStr ''Dawn'', body = JStr ''...'', type = JUndefined, pdfData = JUndefined,
       adminKey = JStr ''jaxelricweb''\<rparr> = (json 400 (ErrorJson ''Missing fields''), sample_db)
   \<and> length (content sample_db) = 2"
  using post_content_missing_fields [of
      "\<lparr>title = JStr ''Dawn'', body = JStr [], type = JStr ''poetry'', pdfData = JUndefined,
        adminKey = JStr ''jaxelricweb''\<rparr>" None sample_db 300]
    post_content_missing_fields [of
      "\<lparr>title = JStr ''Dawn'', body = JStr ''...'', type = JUndefined, pdfData = JUndefined,
        adminKey = JStr ''jaxelricweb''\<rparr>" None sample_db 300]
  by (simp add: admin_secret_def sample_db_def)

section \<open>Listing\<close>

lemma order_desc_mset: "mset (order_by_created_at_desc f xs) = mset xs"
  by (simp add: order_by_created_at_desc_def)

lemma order_desc_sorted:
  "sorted_wrt (\<lambda>a b. f b \<le> f a) (order_by_created_at_desc f xs)"
proof -
  have "sorted (map (\<lambda>r. - int (f r)) (sort_key (\<lambda>r. - int (f r)) xs))"
    by (rule sorted_sort_key)
  then show ?thesis
    by (simp add: order_by_created_at_desc_def sorted_map)
qed

text \<open>
  C6: in every state of the store GET /api/content answers 200 with all rows of the
  content table and GET /api/reviews answers 200 with all rows of the reviews table (the
  same rows, as multisets), each list in descending order of \<^verbatim>\<open>created_at\<close>; the store is
  unchanged. For an empty table the list is empty, which is an answer like any other.
\<close>

theorem list_newest_first:
  "\<exists>cs rs.
     get_content d = (json 200 (ContentJson cs), d)
     \<and> mset cs = mset (content d)
     \<and> sorted_wrt (\<lambda>a b. c_created_at b \<le> c_created_at a) cs
     \<and> get_reviews d = (json 200 (ReviewsJson rs), d)
     \<and> mset rs = mset (reviews d)
     \<and> sorted_wrt (\<lambda>a b. r_created_at b \<le> r_created_at a) rs"
proof (intro exI conjI)
  show "get_content d =
      (json 200 (ContentJson (order_by_created_at_desc c_created_at (content d))), d)"
    by (simp add: get_content_def)
  show "get_reviews d =
      (json 200 (ReviewsJson (order_by_created_at_desc r_created_at (reviews d))), d)"
    by (simp add: get_reviews_def)
qed (simp_all add: order_desc_mset order_desc_sorted)

theorem list_newest_first_witness:
  "get_content sample_db =
     (json 200 (ContentJson [content sample_db ! 1, content sample_db ! 0]), sample_db)
   \<and> get_reviews sample_db =
     (json 200 (ReviewsJson [reviews sample_db ! 1, reviews sample_db ! 0]), sample_db)
   \<and> get_content empty_db = (json 200 (ContentJson []), empty_db)
   \<and> get_reviews empty_db = (json 200 (ReviewsJson []), empty_db)"
  using list_newest_first [of sample_db] list_newest_first [of empty_db]
  by (simp add: get_content_def get_reviews_def order_by_created_at_desc_def sample_db_def
      empty_db_def)

section \<open>Numbers in an INTEGER column\<close>


lemma exponent_less: "exponent w < 2048"
  by (simp add: exponent_def)








lemma five_is_5: "real_to_integer five = SqlInt 5 \<and> double_value five = 5 \<and> truthy (JNum five)"
  by (simp add: five_def real_to_integer_def double_value_def exponent_def fraction_def
      negative_def signum_def is_zero_def is_nan_def Let_def)

section \<open>Binding the arguments of an INSERT\<close>

text \<open>
  When the last argument of \<^verbatim>\<open>run\<close> is a number, that number is the last value bound,
  whatever the arguments before it are.
\<close>

lemma bind_args_last:
  "bind_args seen (vs @ [JNum w]) = Some xs \<Longrightarrow>
   xs \<noteq> [] \<and> last xs = (if is_nan w then SqlNull else SqlReal w)"
proof (induction vs arbitrary: seen xs)
  case Nil
  then show ?case by auto
next
  case (Cons v vs)
  show ?case
  proof (cases v)
    case (JArr ws)
    with Cons.prems obtain ys zs where
      "bind_args seen (vs @ [JNum w]) = Some zs" and "xs = ys @ zs"
      by (auto split: option.splits)
    with Cons.IH [of seen zs] show ?thesis by simp
  next
    case (JObj kvs)
    with Cons.prems have "bind_args True (vs @ [JNum w]) = Some xs"
      by (auto split: if_splits)
    with Cons.IH [of True xs] show ?thesis by simp
  next
    case JUndefined
    with Cons.prems obtain zs where
      "bind_args seen (vs @ [JNum w]) = Some zs" and "xs = SqlNull # zs"
      by auto
    with Cons.IH [of seen zs] show ?thesis by simp
  next
    case JNull
    with Cons.prems obtain zs where
      "bind_args seen (vs @ [JNum w]) = Some zs" and "xs = SqlNull # zs"
      by auto
    with Cons.IH [of seen zs] show ?thesis by simp
  next
    case (JBool b)
    with Cons.prems show ?thesis by simp
  next
    case (JNum u)
    with Cons.prems obtain x zs where
      "bind_args seen (vs @ [JNum w]) = Some zs" and "xs = x # zs"
      by auto
    with Cons.IH [of seen zs] show ?thesis by simp
  next
    case (JStr s)
    with Cons.prems obtain zs where
      "bind_args seen (vs @ [JNum w]) = Some zs" and "xs = SqlText s # zs"
      by auto
    with Cons.IH [of seen zs] show ?thesis by simp
  qed
qed

lemma insert_review_cases:
  "insert_review d now args = Inl BindError \<or> insert_review d now args = Inl ConstraintError \<or>
   (\<exists>n c r. bind_args False args = Some [n, c, r] \<and> n \<noteq> SqlNull \<and> c \<noteq> SqlNull \<and>
      insert_review d now args =
        Inr (reviews_seq d + 1,
             d\<lparr>reviews := reviews d @
                  [\<lparr>r_id = reviews_seq d + 1, r_name = text_affinity n,
                    r_comment = text_affinity c, r_rating = integer_affinity r,
                    r_created_at = now\<rparr>],
                reviews_seq := reviews_seq d + 1\<rparr>))"
  by (auto simp: insert_review_def Let_def split: option.splits list.splits)

lemma insert_content_cases:
  "insert_content d now args = Inl BindError \<or> insert_content d now args = Inl ConstraintError \<or>
   (\<exists>t b k p. bind_args False args = Some [t, b, k, p] \<and> t \<noteq> SqlNull \<and> b \<noteq> SqlNull \<and>
      k \<noteq> SqlNull \<and>
      insert_content d now args =
        Inr (content_seq d + 1,
             d\<lparr>content := content d @
                  [\<lparr>c_id = content_seq d + 1, c_title = text_affinity t,
                    c_body = text_affinity b, c_type = text_affinity k,
                    c_pdf_data = text_affinity p, c_created_at = now\<rparr>],
                content_seq := content_seq d + 1\<rparr>))"
  by (auto simp: insert_content_def Let_def split: option.splits list.splits)

lemma post_review_rating:
  assumes "js_or (rating req) (JNum five) = JNum w" and "\<not> is_nan w"
  shows "snd (post_review d now req) = d \<or>
         (\<exists>r. reviews (snd (post_review d now req)) = reviews d @ [r] \<and>
              r_rating r = real_to_integer w)"
proof (cases "\<not> truthy (name req) \<or> \<not> truthy (comment req)")
  case True
  then show ?thesis by (auto simp: post_review_def)
next
  case False
  let ?args = "[name req, comment req, JNum w]"
  from insert_review_cases [of d now ?args] show ?thesis
  proof (elim disjE exE conjE)
    assume "insert_review d now ?args = Inl BindError"
    with False assms show ?thesis by (simp add: post_review_def uncaught_def)
  next
    assume "insert_review d now ?args = Inl ConstraintError"
    with False assms show ?thesis by (simp add: post_review_def uncaught_def)
  next
    fix n c r
    assume b: "bind_args False ?args = Some [n, c, r]"
      and i: "insert_review d now ?args =
        Inr (reviews_seq d + 1,
             d\<lparr>reviews := reviews d @
                  [\<lparr>r_id = reviews_seq d + 1, r_name = text_affinity n,
                    r_comment = text_affinity c, r_rating = integer_affinity r,
                    r_created_at = now\<rparr>],
                reviews_seq := reviews_seq d + 1\<rparr>)"
    from b bind_args_last [of False "[name req, comment req]" w "[n, c, r]"] assms(2)
    have "r = SqlReal w" by simp
    with False assms i show ?thesis by (simp add: post_review_def)
  qed
qed

section \<open>Creating\<close>

text \<open>
  C5: POST /api/content with the configured secret and a title, body and type that are
  non-empty strings, the attachment being a string, null or missing. The answer is 200
  with the new id, and the content table gains one row holding that id (the next number
  of the table's sequence, so none a row already has), the title, body and type as
  supplied, the attachment (NULL when it is missing, null or the empty string) and the
  time of the insertion.
\<close>

theorem post_content_creates:
  assumes "adminKey req = JStr (admin_secret env)"
    and "title req = JStr t" and "t \<noteq> []"
    and "body req = JStr b" and "b \<noteq> []"
    and "type req = JStr k" and "k \<noteq> []"
    and "pdfData req = JUndefined \<or> pdfData req = JNull \<or> pdfData req = JStr p"
  shows "post_content env d now req =
           (json 200 (IdJson (content_seq d + 1)),
            d\<lparr>content := content d @
                 [\<lparr>c_id = content_seq d + 1, c_title = SqlText t, c_body = SqlText b,
                   c_type = SqlText k,
                   c_pdf_data = (if pdfData req = JStr p \<and> p \<noteq> [] then SqlText p else SqlNull),
                   c_created_at = now\<rparr>],
               content_seq := content_seq d + 1\<rparr>)
         \<and> (ids_ok d \<longrightarrow> content_seq d + 1 \<notin> c_id ` set (content d))"
proof -
  have fresh: "ids_ok d \<longrightarrow> content_seq d + 1 \<notin> c_id ` set (content d)"
    by (auto simp: ids_ok_def list_all_iff)
  from assms(8) have "bind_value (js_or (pdfData req) JNull) =
      Some (if pdfData req = JStr p \<and> p \<noteq> [] then SqlText p else SqlNull)"
    by (auto simp: js_or_def)
  with assms(1-7) have "post_content env d now req =
           (json 200 (IdJson (content_seq d + 1)),
            d\<lparr>content := content d @
                 [\<lparr>c_id = content_seq d + 1, c_title = SqlText t, c_body = SqlText b,
                   c_type = SqlText k,
                   c_pdf_data = (if pdfData req = JStr p \<and> p \<noteq> [] then SqlText p else SqlNull),
                   c_created_at = now\<rparr>],
               content_seq := content_seq d + 1\<rparr>)"
    using assms(8) by (auto simp: post_content_def insert_content_def js_or_def Let_def)
  with fresh show ?thesis by blast
qed

theorem post_content_creates_witness:
  "post_content None sample_db 300
      \<lparr>title = JStr ''Noon'', body = JStr ''Sun'', type = JStr ''poetry'',
       pdfData = JStr ''data:application/pdf;base64,BB'', adminKey = JStr ''jaxelricweb''\<rparr> =
     (json 200 (IdJson 3),
      sample_db\<lparr>content := content sample_db @
          [\<lparr>c_id = 3, c_title = SqlText ''Noon'', c_body = SqlText ''Sun'',
            c_type = SqlText ''poetry'', c_pdf_data = SqlText ''data:application/pdf;base64,BB'',
            c_created_at = 300\<rparr>],
        content_seq := 3\<rparr>)
   \<and> ids_ok sample_db \<and> map c_id (content sample_db) = [1, 2]"
  using post_content_creates [of
      "\<lparr>title = JStr ''Noon'', body = JStr ''Sun'', type = JStr ''poetry'',
        pdfData = JStr ''data:application/pdf;base64,BB'', adminKey = JStr ''jaxelricweb''\<rparr>"
      None "''Noon''" "''Sun''" "''poetry''" "''data:application/pdf;base64,BB''" sample_db 300]
  by (simp add: admin_secret_def sample_db_def ids_ok_def)

text \<open>
  C5 as stated fails when a field is of a kind the store cannot bind. With the secret,
  title, body and type as in the example above, an attachment \<^verbatim>\<open>true\<close> or \<^verbatim>\<open>{}\<close> makes
  \<^verbatim>\<open>run\<close> throw: the answer is 500 and no row is inserted. So does a title \<^verbatim>\<open>true\<close>,
  which the presence check lets through.
\<close>

theorem post_content_unbindable_counterexample:
  "post_content None sample_db 300
      \<lparr>title = JStr ''Noon'', body = JStr ''Sun'', type = JStr ''poetry'',
       pdfData = JBool True, adminKey = JStr ''jaxelricweb''\<rparr> =
     (\<lparr>status = 500, payload = ErrorPage\<rparr>, sample_db)
   \<and> post_content None sample_db 300
      \<lparr>title = JStr ''Noon'', body = JStr ''Sun'', type = JStr ''poetry'',
       pdfData = JObj [], adminKey = JStr ''jaxelricweb''\<rparr> =
     (\<lparr>status = 500, payload = ErrorPage\<rparr>, sample_db)
   \<and> post_content None sample_db 300
      \<lparr>title = JBool True, body = JStr ''Sun'', type = JStr ''poetry'',
       pdfData = JNull, adminKey = JStr ''jaxelricweb''\<rparr> =
     (\<lparr>status = 500, payload = ErrorPage\<rparr>, sample_db)"
  by (simp add: post_content_def insert_content_def js_or_def admin_secret_def uncaught_def)

text \<open>
  C7: POST /api/reviews with a name and comment present and no rating field. Whatever
  row the request inserts has rating 5; when name and comment are (non-empty) strings
  the row is inserted, with the next id of the sequence, and the answer is 200 with
  that id.
\<close>

theorem review_default_rating:
  assumes "truthy (name req)" and "truthy (comment req)" and "rating req = JUndefined"
  shows "(snd (post_review d now req) = d \<or>
          (\<exists>r. reviews (snd (post_review d now req)) = reviews d @ [r] \<and> r_rating r = SqlInt 5))
       \<and> (name req = JStr n \<and> comment req = JStr c \<longrightarrow>
            post_review d now req =
              (json 200 (IdJson (reviews_seq d + 1)),
               d\<lparr>reviews := reviews d @
                    [\<lparr>r_id = reviews_seq d + 1, r_name = SqlText n, r_comment = SqlText c,
                      r_rating = SqlInt 5, r_created_at = now\<rparr>],
                  reviews_seq := reviews_seq d + 1\<rparr>))"
proof
  from assms(3) have "js_or (rating req) (JNum five) = JNum five"
    by (simp add: js_or_def)
  moreover from five_is_5 have "\<not> is_nan five" by simp
  ultimately show "snd (post_review d now req) = d \<or>
      (\<exists>r. reviews (snd (post_review d now req)) = reviews d @ [r] \<and> r_rating r = SqlInt 5)"
    using post_review_rating [of req five d now] five_is_5 by simp
next
  from assms show "name req = JStr n \<and> comment req = JStr c \<longrightarrow>
            post_review d now req =
              (json 200 (IdJson (reviews_seq d + 1)),
               d\<lparr>reviews := reviews d @
                    [\<lparr>r_id = reviews_seq d + 1, r_name = SqlText n, r_comment = SqlText c,
                      r_rating = SqlInt 5, r_created_at = now\<rparr>],
                  reviews_seq := reviews_seq d + 1\<rparr>)"
    using five_is_5 by (auto simp: post_review_def insert_review_def js_or_def Let_def)
qed

theorem review_default_rating_witness:
  "post_review sample_db 300 \<lparr>name = JStr ''Cy'', comment = JStr ''Good.'', rating = JUndefined\<rparr> =
     (json 200 (IdJson 4),
      sample_db\<lparr>reviews := reviews sample_db @
          [\<lparr>r_id = 4, r_name = SqlText ''Cy'', r_comment = SqlText ''Good.'',
            r_rating = SqlInt 5, r_created_at = 300\<rparr>],
        reviews_seq := 4\<rparr>)"
  using review_default_rating [of
      "\<lparr>name = JStr ''Cy'', comment = JStr ''Good.'', rating = JUndefined\<rparr>" sample_db 300
      "''Cy''" "''Good.''"]
  by (simp add: sample_db_def)




section \<open>Invariants of the store\<close>

text \<open>
  Ids stay distinct and below the sequence number, from the empty store on, whatever the
  requests are.
\<close>

lemma ids_ok_empty: "ids_ok empty_db"
  by (simp add: ids_ok_def empty_db_def)

lemma filter_ids_ok:
  "distinct (map f xs) \<Longrightarrow> list_all (\<lambda>r. f r \<le> (s::int)) xs \<Longrightarrow>
   distinct (map f (filter P xs)) \<and> list_all (\<lambda>r. f r \<le> s) (filter P xs)"
  by (simp add: distinct_map_filter list_all_iff)

lemma append_ids_ok:
  "distinct (map f xs) \<Longrightarrow> list_all (\<lambda>r. f r \<le> (s::int)) xs \<Longrightarrow> f x = s + 1 \<Longrightarrow>
   distinct (map f (xs @ [x])) \<and> list_all (\<lambda>r. f r \<le> s + 1) (xs @ [x])"
  by (auto simp: list_all_iff)

lemma insert_content_ids_ok:
  assumes "ids_ok d" and "insert_content d now args = Inr (i, d')"
  shows "ids_ok d'"
proof -
  from insert_content_cases [of d now args] assms(2) obtain t b k p where
    d': "d' = d\<lparr>content := content d @
                  [\<lparr>c_id = content_seq d + 1, c_title = text_affinity t,
                    c_body = text_affinity b, c_type = text_affinity k,
                    c_pdf_data = text_affinity p, c_created_at = now\<rparr>],
                content_seq := content_seq d + 1\<rparr>"
    by auto
  from assms(1) append_ids_ok [of c_id "content d" "content_seq d"
      "\<lparr>c_id = content_seq d + 1, c_title = text_affinity t, c_body = text_affinity b,
        c_type = text_affinity k, c_pdf_data = text_affinity p, c_created_at = now\<rparr>"]
  show ?thesis unfolding d' by (simp add: ids_ok_def)
qed

lemma insert_review_ids_ok:
  assumes "ids_ok d" and "insert_review d now args = Inr (i, d')"
  shows "ids_ok d'"
proof -
  from insert_review_cases [of d now args] assms(2) obtain n c r where
    d': "d' = d\<lparr>reviews := reviews d @
                  [\<lparr>r_id = reviews_seq d + 1, r_name = text_affinity n,
                    r_comment = text_affinity c, r_rating = integer_affinity r,
                    r_created_at = now\<rparr>],
                reviews_seq := reviews_seq d + 1\<rparr>"
    by auto
  from assms(1) append_ids_ok [of r_id "reviews d" "reviews_seq d"
      "\<lparr>r_id = reviews_seq d + 1, r_name = text_affinity n, r_comment = text_affinity c,
        r_rating = integer_affinity r, r_created_at = now\<rparr>"]
  show ?thesis unfolding d' by (simp add: ids_ok_def)
qed

lemma route_ids_ok:
  assumes "ids_ok d"
  shows "ids_ok (snd (route env d now q))"
proof (cases q)
  case GetContent
  with assms show ?thesis by (simp add: get_content_def)
next
  case (PostContent req)
  with assms show ?thesis
    by (auto simp: post_content_def split: sum.splits dest: insert_content_ids_ok)
next
  case (DeleteContent key i)
  with assms filter_ids_ok [of c_id "content d" "content_seq d" "\<lambda>r. c_id r \<noteq> i"]
  show ?thesis
    by (auto simp: delete_content_def delete_content_row_def Let_def ids_ok_def)
next
  case (DeleteReview key i)
  with assms filter_ids_ok [of r_id "reviews d" "reviews_seq d" "\<lambda>r. r_id r \<noteq> i"]
  show ?thesis
    by (auto simp: delete_review_def delete_review_row_def Let_def ids_ok_def)
next
  case GetReviews
  with assms show ?thesis by (simp add: get_reviews_def)
next
  case (PostReview req)
  with assms show ?thesis
    by (auto simp: post_review_def split: sum.splits dest: insert_review_ids_ok)
qed

lemma serve_ids_ok: "ids_ok d \<Longrightarrow> ids_ok (serve env d qs)"
proof (induction qs arbitrary: d)
  case Nil
  then show ?case by simp
next
  case (Cons a qs)
  obtain now q where "a = (now, q)" by (cases a)
  with Cons show ?case by (simp add: route_ids_ok)
qed

text \<open>
  Where the presence check does its work: a plain argument binds exactly one value, and
  a truthy plain value binds a non-empty one, so a title and body (name and comment)
  that are plain reach the columns they are meant for, and non-empty.
\<close>

lemma bind_args_plain:
  "plain v \<Longrightarrow> bind_args seen (v # rest) =
     (case bind_value v of None \<Rightarrow> None | Some x \<Rightarrow> map_option ((#) x) (bind_args seen rest))"
  by (cases v) simp_all

lemma bind_value_nonempty:
  "truthy v \<Longrightarrow> bind_value v = Some x \<Longrightarrow> nonempty (text_affinity x)"
  by (cases v) (auto simp: nonempty_def)

lemma bind_two_plain:
  assumes "plain v" and "plain w" and "truthy v" and "truthy w"
    and "bind_args False (v # w # rest) = Some xs"
  shows "\<exists>x y zs. xs = x # y # zs \<and> nonempty (text_affinity x) \<and> nonempty (text_affinity y)"
proof -
  from assms(1,2,5) obtain x y zs where
    "bind_value v = Some x" and "bind_value w = Some y" and "xs = x # y # zs"
    by (auto simp: bind_args_plain split: option.splits)
  with assms(3,4) show ?thesis
    by (auto dest: bind_value_nonempty)
qed

lemma post_content_rows:
  assumes "plain (title req)" and "plain (body req)"
  shows "reviews (snd (post_content env d now req)) = reviews d \<and>
         (content (snd (post_content env d now req)) = content d \<or>
          (\<exists>r. content (snd (post_content env d now req)) = content d @ [r] \<and> work_nonempty r))"
proof (cases "adminKey req \<noteq> JStr (admin_secret env) \<or>
    \<not> truthy (title req) \<or> \<not> truthy (body req) \<or> \<not> truthy (type req)")
  case True
  then show ?thesis by (auto simp: post_content_def)
next
  case False
  let ?args = "[title req, body req, type req, js_or (pdfData req) JNull]"
  from insert_content_cases [of d now ?args] show ?thesis
  proof (elim disjE exE conjE)
    assume "insert_content d now ?args = Inl BindError"
    with False show ?thesis by (simp add: post_content_def)
  next
    assume "insert_content d now ?args = Inl ConstraintError"
    with False show ?thesis by (simp add: post_content_def)
  next
    fix t b k p
    assume bound: "bind_args False ?args = Some [t, b, k, p]"
      and ins: "insert_content d now ?args =
        Inr (content_seq d + 1,
             d\<lparr>content := content d @
                  [\<lparr>c_id = content_seq d + 1, c_title = text_affinity t,
                    c_body = text_affinity b, c_type = text_affinity k,
                    c_pdf_data = text_affinity p, c_created_at = now\<rparr>],
                content_seq := content_seq d + 1\<rparr>)"
    from False assms bound
      bind_two_plain [of "title req" "body req" "[type req, js_or (pdfData req) JNull]" "[t, b, k, p]"]
    have "nonempty (text_affinity t) \<and> nonempty (text_affinity b)" by auto
    with False ins show ?thesis by (simp add: post_content_def work_nonempty_def)
  qed
qed

lemma post_review_rows:
  assumes "plain (name req)" and "plain (comment req)"
  shows "content (snd (post_review d now req)) = content d \<and>
         (reviews (snd (post_review d now req)) = reviews d \<or>
          (\<exists>r. reviews (snd (post_review d now req)) = reviews d @ [r] \<and> review_nonempty r))"
proof (cases "\<not> truthy (name req) \<or> \<not> truthy (comment req)")
  case True
  then show ?thesis by (auto simp: post_review_def)
next
  case False
  let ?args = "[name req, comment req, js_or (rating req) (JNum five)]"
  from insert_review_cases [of d now ?args] show ?thesis
  proof (elim disjE exE conjE)
    assume "insert_review d now ?args = Inl BindError"
    with False show ?thesis by (simp add: post_review_def)
  next
    assume "insert_review d now ?args = Inl ConstraintError"
    with False show ?thesis by (simp add: post_review_def)
  next
    fix n c r
    assume bound: "bind_args False ?args = Some [n, c, r]"
      and ins: "insert_review d now ?args =
        Inr (reviews_seq d + 1,
             d\<lparr>reviews := reviews d @
                  [\<lparr>r_id = reviews_seq d + 1, r_name = text_affinity n,
                    r_comment = text_affinity c, r_rating = integer_affinity r,
                    r_created_at = now\<rparr>],
                reviews_seq := reviews_seq d + 1\<rparr>)"
    from False assms bound
      bind_two_plain [of "name req" "comment req" "[js_or (rating req) (JNum five)]" "[n, c, r]"]
    have "nonempty (text_affinity n) \<and> nonempty (text_affinity c)" by auto
    with False ins show ?thesis by (simp add: post_review_def review_nonempty_def)
  qed
qed

lemma delete_content_rows:
  "reviews (snd (delete_content env d key i)) = reviews d \<and>
   set (content (snd (delete_content env d key i))) \<subseteq> set (content d)"
  by (auto simp: delete_content_def delete_content_row_def Let_def)

lemma delete_review_rows:
  "content (snd (delete_review d i)) = content d \<and>
   set (reviews (snd (delete_review d i))) \<subseteq> set (reviews d)"
  by (auto simp: delete_review_def delete_review_row_def Let_def)

lemma route_new_rows:
  assumes "plain_request q"
  shows "(\<forall>r\<in>set (content (snd (route env d now q))). r \<in> set (content d) \<or> work_nonempty r)
       \<and> (\<forall>r\<in>set (reviews (snd (route env d now q))). r \<in> set (reviews d) \<or> review_nonempty r)"
proof (cases q)
  case GetContent
  then show ?thesis by (simp add: get_content_def)
next
  case (PostContent req)
  with assms post_content_rows [of req env d now] show ?thesis by auto
next
  case (DeleteContent key i)
  with delete_content_rows [of env d key i] show ?thesis by auto
next
  case (DeleteReview key i)
  with delete_review_rows [of d i] show ?thesis by auto
next
  case GetReviews
  then show ?thesis by (simp add: get_reviews_def)
next
  case (PostReview req)
  with assms post_review_rows [of req d now] show ?thesis by auto
qed

lemma plain_fields_rows_nonempty:
  assumes "list_all plain_request (map snd qs)"
  shows "(\<forall>r\<in>set (content (serve env d qs)). r \<in> set (content d) \<or> work_nonempty r)
       \<and> (\<forall>r\<in>set (reviews (serve env d qs)). r \<in> set (reviews d) \<or> review_nonempty r)"
  using assms
proof (induction qs arbitrary: d)
  case Nil
  then show ?case by simp
next
  case (Cons a qs)
  obtain now q where a: "a = (now, q)" by (cases a)
  with Cons.prems have first: "plain_request q" and rest: "list_all plain_request (map snd qs)"
    by simp_all
  from route_new_rows [OF first, of env d now] Cons.IH [OF rest, of "snd (route env d now q)"]
  show ?case unfolding a by (simp only: serve.simps) blast
qed

text \<open>
  C9: the handlers break the invariant when a field is an array. \<^verbatim>\<open>![""]\<close> is false,
  so the presence check that is there to refuse empty fields passes, and \<^verbatim>\<open>run\<close> binds
  the array's element, the empty string. With the secret, a Work with an empty title and
  body is created, and without any secret a Review with an empty name and comment: both
  requests are answered 200, and the store then holds the two rows below.
\<close>

theorem array_fields_counterexample:
  "serve None empty_db
     [(10, PostContent \<lparr>title = JArr [JStr []], body = JArr [JStr []], type = JStr ''poetry'',
                       pdfData = JUndefined, adminKey = JStr ''jaxelricweb''\<rparr>),
      (20, PostReview \<lparr>name = JArr [JStr []], comment = JArr [JStr []], rating = JUndefined\<rparr>)] =
     \<lparr>content =
        [\<lparr>c_id = 1, c_title = SqlText [], c_body = SqlText [], c_type = SqlText ''poetry'',
          c_pdf_data = SqlNull, c_created_at = 10\<rparr>],
      content_seq = 1,
      reviews =
        [\<lparr>r_id = 1, r_name = SqlText [], r_comment = SqlText [], r_rating = SqlInt 5,
          r_created_at = 20\<rparr>],
      reviews_seq = 1\<rparr>
   \<and> \<not> nonempty (SqlText [])
   \<and> fst (route None empty_db 20
        (PostReview \<lparr>name = JArr [JStr []], comment = JArr [JStr []], rating = JUndefined\<rparr>)) =
       json 200 (IdJson 1)"
  using five_is_5
  by (simp add: empty_db_def post_content_def post_review_def insert_content_def
      insert_review_def js_or_def admin_secret_def nonempty_def)

end
